theory Spec2Isabelle
  imports Complex_Main
begin

section \<open>Strings\<close>

text \<open>
  JavaScript strings are modelled as \<open>string\<close> (a list of 8-bit characters).
  \<open>toLowerCase\<close> maps the ASCII capitals to their small letters and leaves every other
  character alone; \<open>includesStr s pat\<close> is \<open>s.includes(pat)\<close>: \<open>pat\<close> occurs in \<open>s\<close>
  as a contiguous run. Where a name of the source is a keyword or a constant of the logic,
  the model's name differs: \<open>includesStr\<close> for \<open>includes\<close>, \<open>opDone\<close> for \<open>done\<close>,
  \<open>mathRandom\<close> for \<open>Math.random\<close>, \<open>responseText\<close> for the \<open>text\<close> of a response.
\<close>

definition lowerChar :: "char \<Rightarrow> char" where
  "lowerChar c =
     (let n = (of_char c :: nat) in if 65 \<le> n \<and> n \<le> 90 then char_of (n + 32) else c)"

definition toLowerCase :: "string \<Rightarrow> string" where
  "toLowerCase s = map lowerChar s"

fun startsWith :: "string \<Rightarrow> string \<Rightarrow> bool" where
  "startsWith s [] = True"
| "startsWith [] (p # ps) = False"
| "startsWith (c # cs) (p # ps) = (c = p \<and> startsWith cs ps)"

fun includesStr :: "string \<Rightarrow> string \<Rightarrow> bool" where
  "includesStr [] pat = (pat = [])"
| "includesStr (c # cs) pat = (startsWith (c # cs) pat \<or> includesStr cs pat)"

text \<open>The truthiness of an optional string: \<open>undefined\<close> and \<open>""\<close> are falsy.\<close>

fun truthy :: "string option \<Rightarrow> bool" where
  "truthy None = False"
| "truthy (Some s) = (s \<noteq> [])"

section \<open>The error classes\<close>

text \<open>
  Modelled from the spec: the error classes of \<open>shared/utils/errors.ts\<close>, which
  \<open>services/ai-core.ts\<close> imports and which is not among the sources. The spec has a closed
  tagged union of classified errors, each with a message and, where applicable, a numeric
  code; the code constructs \<open>ApiError(message, statusCode)\<close>, \<open>AuthenticationError(message)\<close>,
  \<open>SafetyError(message)\<close> and \<open>RateLimitError()\<close> (no argument: its default message), all
  of them instances of \<open>AppError\<close>.
\<close>

datatype AppError =
    ApiError string int
  | AuthenticationError string
  | SafetyError string
  | RateLimitError "string option"

text \<open>
  What a \<open>catch\<close> clause can receive: an \<open>AppError\<close>, or anything else. Of anything else
  \<open>normalizeError\<close> reads \<open>error?.message\<close>, \<open>error?.toString()\<close>, \<open>error?.status\<close> and
  \<open>error?.response?.status\<close>, each of which may be undefined.
\<close>

record RawError =
  message :: "string option"
  toStr :: "string option"
  status :: "int option"
  responseStatus :: "int option"

datatype thrown = App AppError | Raw RawError

text \<open>\<open>error?.message || error?.toString() || "Unknown error"\<close>\<close>

definition rawMessageOf :: "RawError \<Rightarrow> string" where
  "rawMessageOf r =
     (if truthy (message r) then the (message r)
      else if truthy (toStr r) then the (toStr r)
      else ''Unknown error'')"

text \<open>\<open>error?.status || error?.response?.status\<close>: a status of 0 is falsy.\<close>

definition statusOf :: "RawError \<Rightarrow> int option" where
  "statusOf r =
     (case status r of
        Some s \<Rightarrow> if s \<noteq> 0 then Some s else responseStatus r
      | None \<Rightarrow> responseStatus r)"

definition INVALID_API_KEY :: string where
  "INVALID_API_KEY = ''INVALID_API_KEY: The provided API key is invalid or expired. Please update your credentials.''"

definition BILLING_REQUIRED :: string where
  "BILLING_REQUIRED = ''BILLING_REQUIRED: The Google Cloud Project for this key needs billing enabled.''"

definition GEO_RESTRICTION :: string where
  "GEO_RESTRICTION = ''GEO_RESTRICTION: Google Gemini is not available in your current region.''"

definition ACCESS_DENIED :: string where
  "ACCESS_DENIED = ''ACCESS_DENIED: API access prohibited. Check project permissions.''"

definition SAFETY_VIOLATION :: string where
  "SAFETY_VIOLATION = ''SAFETY_VIOLATION: The prompt or input image triggered safety filters. Try simplifying your request.''"

definition MODEL_UNAVAILABLE :: string where
  "MODEL_UNAVAILABLE = ''MODEL_UNAVAILABLE: The requested AI model version is not found or deprecated.''"

definition SYSTEM_OVERLOAD :: string where
  "SYSTEM_OVERLOAD = ''SYSTEM_OVERLOAD: Google AI servers are experiencing high traffic. Please retry in a moment.''"

definition NETWORK_ERROR :: string where
  "NETWORK_ERROR = ''NETWORK_ERROR: Unable to connect to Google AI services. Please check your internet connection.''"

definition INVALID_IMAGE :: string where
  "INVALID_IMAGE = ''INVALID_IMAGE: The provided image format or size is not supported.''"

definition INVALID_REQUEST :: string where
  "INVALID_REQUEST = ''INVALID_REQUEST: The request parameters are invalid. Check your prompt or configuration.''"

section \<open>normalizeError\<close>

text \<open>
  \<open>AICoreService.normalizeError\<close> of \<open>services/ai-core.ts\<close>: an \<open>AppError\<close> is returned as
  it is; otherwise the first matching rule decides, in the order of the source.
\<close>

definition classifyRaw :: "RawError \<Rightarrow> AppError" where
  "classifyRaw r =
     (let rawMessage = rawMessageOf r;
          st = statusOf r;
          lowerMsg = toLowerCase rawMessage
      in
        if st = Some 429 \<or> includesStr lowerMsg ''429'' \<or> includesStr lowerMsg ''quota''
           \<or> includesStr lowerMsg ''exhausted''
        then RateLimitError None
        else if st = Some 401 \<or> includesStr lowerMsg ''api key''
                \<or> includesStr lowerMsg ''unauthenticated''
        then AuthenticationError INVALID_API_KEY
        else if st = Some 403 \<or> includesStr lowerMsg ''permission denied''
        then (if includesStr lowerMsg ''billing'' then AuthenticationError BILLING_REQUIRED
              else if includesStr lowerMsg ''location'' \<or> includesStr lowerMsg ''region''
              then AuthenticationError GEO_RESTRICTION
              else AuthenticationError ACCESS_DENIED)
        else if includesStr lowerMsg ''safety'' \<or> includesStr lowerMsg ''blocked''
                \<or> includesStr lowerMsg ''harmful''
        then SafetyError SAFETY_VIOLATION
        else if st = Some 404 \<or> includesStr lowerMsg ''not found''
        then ApiError MODEL_UNAVAILABLE 404
        else if st \<in> {Some 500, Some 502, Some 503, Some 504}
                \<or> includesStr lowerMsg ''overloaded'' \<or> includesStr lowerMsg ''busy''
                \<or> includesStr lowerMsg ''capacity''
        then ApiError SYSTEM_OVERLOAD 503
        else if includesStr lowerMsg ''fetch'' \<or> includesStr lowerMsg ''network''
                \<or> includesStr lowerMsg ''connection''
        then ApiError NETWORK_ERROR 0
        else if st = Some 400 \<or> includesStr lowerMsg ''invalid argument''
        then (if includesStr lowerMsg ''image'' then ApiError INVALID_IMAGE 400
              else ApiError INVALID_REQUEST 400)
        else ApiError (''GENAI_ERROR: '' @ rawMessage)
               (case st of Some s \<Rightarrow> if s \<noteq> 0 then s else 500 | None \<Rightarrow> 500))"

fun normalizeError :: "thrown \<Rightarrow> AppError" where
  "normalizeError (App e) = e"
| "normalizeError (Raw r) = classifyRaw r"

text \<open>A failure with status 403 whose message mentions billing, and a quota.\<close>

definition billingQuota403 :: RawError where
  "billingQuota403 =
     \<lparr>message = Some ''billing quota exceeded'', toStr = None,
      status = Some 403, responseStatus = None\<rparr>"

section \<open>Requests\<close>

datatype AIModel =
    Gemini3FlashPreview
  | Gemini3ProPreview
  | Gemini25FlashImage
  | Gemini3ProImagePreview
  | Gemini25FlashLiteLatest
  | Veo31FastGeneratePreview

fun modelName :: "AIModel \<Rightarrow> string" where
  "modelName Gemini3FlashPreview = ''gemini-3-flash-preview''"
| "modelName Gemini3ProPreview = ''gemini-3-pro-preview''"
| "modelName Gemini25FlashImage = ''gemini-2.5-flash-image''"
| "modelName Gemini3ProImagePreview = ''gemini-3-pro-image-preview''"
| "modelName Gemini25FlashLiteLatest = ''gemini-2.5-flash-lite-latest''"
| "modelName Veo31FastGeneratePreview = ''veo-3.1-fast-generate-preview''"

datatype AspectRatio = R1x1 | R3x4 | R4x3 | R9x16 | R16x9 | R2x3 | R3x2 | R21x9

datatype ImageSize = Size1K | Size2K | Size4K

text \<open>
  \<open>AIRequestConfig\<close>. Every field but \<open>model\<close> is optional; numbers that count tokens or
  retries are integers here.
\<close>

record AIRequestConfig =
  model :: AIModel
  aspectRatio :: "AspectRatio option"
  imageSize :: "ImageSize option"
  thinkingBudget :: "int option"
  maxOutputTokens :: "int option"
  useSearch :: "bool option"
  systemInstruction :: "string option"
  responseMimeType :: "string option"
  maxRetries :: "int option"
  seed :: "int option"
  temperature :: "real option"

text \<open>A part of the request payload: inline data (data, mimeType) or text.\<close>

datatype Part = InlineData string string | TextPart string

datatype Tool = GoogleSearch

record ImageConfig =
  icAspectRatio :: AspectRatio
  icImageSize :: "ImageSize option"

text \<open>The \<open>generationConfig\<close> object that \<open>executeRequest\<close> fills in.\<close>

record GenerationConfig =
  gcSystemInstruction :: "string option"
  gcResponseMimeType :: "string option"
  gcTemperature :: real
  gcSeed :: "int option"
  gcThinkingBudget :: "int option"
  gcMaxOutputTokens :: "int option"
  gcTools :: "Tool list option"
  gcImageConfig :: "ImageConfig option"

text \<open>The argument of \<open>ai.models.generateContent\<close>.\<close>

record GenerateContentRequest =
  reqModel :: AIModel
  reqParts :: "Part list"
  reqConfig :: GenerationConfig

text \<open>
  The helpers \<open>cleanBase64\<close> and \<open>getMimeType\<close> of \<open>shared/utils/image\<close> are not among
  the sources; they are parameters of the model.
\<close>

record ImageUtils =
  cleanBase64 :: "string \<Rightarrow> string"
  getMimeType :: "string \<Rightarrow> string"

text \<open>
  \<open>images.filter(Boolean).map(...)\<close> followed by the push of the text part:
  \<open>filter(Boolean)\<close> drops the empty strings, and \<open>prompt || "Analyze input assets."\<close>
  replaces an empty prompt.
\<close>

definition buildParts :: "ImageUtils \<Rightarrow> string \<Rightarrow> string list \<Rightarrow> Part list" where
  "buildParts u prompt images =
     map (\<lambda>img. InlineData (cleanBase64 u img) (getMimeType u img))
       (filter (\<lambda>img. img \<noteq> []) images)
     @ [TextPart (if prompt \<noteq> [] then prompt else ''Analyze input assets.'')]"

text \<open>
  The thinking logic: \<open>if (config.maxOutputTokens)\<close> tests truthiness, so a
  \<open>maxOutputTokens\<close> of 0 counts as not given.
\<close>

definition effectiveMaxOutputTokens :: "AIRequestConfig \<Rightarrow> int option" where
  "effectiveMaxOutputTokens config =
     (case thinkingBudget config of
        Some budget \<Rightarrow>
          (case maxOutputTokens config of
             Some m \<Rightarrow> if m \<noteq> 0 then Some (max m (budget + 1024)) else Some (budget + 2048)
           | None \<Rightarrow> Some (budget + 2048))
      | None \<Rightarrow>
          (case maxOutputTokens config of
             Some m \<Rightarrow> if m \<noteq> 0 then Some m else None
           | None \<Rightarrow> None))"

definition buildImageConfig :: "AIRequestConfig \<Rightarrow> ImageConfig option" where
  "buildImageConfig config =
     (if includesStr (modelName (model config)) ''image''
      then Some \<lparr>icAspectRatio = (case aspectRatio config of Some a \<Rightarrow> a | None \<Rightarrow> R1x1),
                 icImageSize =
                   (if model config = Gemini3ProImagePreview
                    then Some (case imageSize config of Some z \<Rightarrow> z | None \<Rightarrow> Size1K)
                    else None)\<rparr>
      else None)"

definition buildGenerationConfig :: "AIRequestConfig \<Rightarrow> GenerationConfig" where
  "buildGenerationConfig config =
     \<lparr>gcSystemInstruction = systemInstruction config,
      gcResponseMimeType = responseMimeType config,
      gcTemperature = (case temperature config of Some t \<Rightarrow> t | None \<Rightarrow> 7 / 10),
      gcSeed = seed config,
      gcThinkingBudget = thinkingBudget config,
      gcMaxOutputTokens = effectiveMaxOutputTokens config,
      gcTools = (if useSearch config = Some True then Some [GoogleSearch] else None),
      gcImageConfig = buildImageConfig config\<rparr>"

definition buildRequest ::
  "ImageUtils \<Rightarrow> string \<Rightarrow> string list \<Rightarrow> AIRequestConfig \<Rightarrow> GenerateContentRequest" where
  "buildRequest u prompt images config =
     \<lparr>reqModel = model config,
      reqParts = buildParts u prompt images,
      reqConfig = buildGenerationConfig config\<rparr>"

section \<open>Responses\<close>

datatype ResponsePart = RespText string | RespInline "string option"

record Content =
  parts :: "ResponsePart list option"

record Candidate =
  finishReason :: "string option"
  groundingChunks :: "string list option"
  content :: "Content option"

record GenerateContentResponse =
  candidates :: "Candidate list option"
  blockReason :: "string option"
  responseText :: "string option"

record AIResponse =
  aiText :: "string option"
  aiImage :: "string option"
  aiGroundingSources :: "string list option"
  aiFinishReason :: "string option"

definition ZERO_CANDIDATES :: string where
  "ZERO_CANDIDATES = ''ZERO_CANDIDATES: The model returned no results. Try adjusting your prompt.''"

definition GENERATION_BLOCKED :: string where
  "GENERATION_BLOCKED = ''GENERATION_BLOCKED: Content flagged by safety filters. Avoid restricted topics or imagery.''"

definition COPYRIGHT_BLOCK :: string where
  "COPYRIGHT_BLOCK = ''COPYRIGHT_BLOCK: Content matched protected intellectual property.''"

definition GENERATION_FAILED :: string where
  "GENERATION_FAILED = ''GENERATION_FAILED: Unknown model error occurred.''"

text \<open>
  What reading \<open>.find\<close> of an undefined \<open>parts\<close> throws: a \<open>TypeError\<close>, which is not an
  \<open>AppError\<close>.
\<close>

definition partsTypeError :: RawError where
  "partsTypeError =
     \<lparr>message = Some ''Cannot read properties of undefined (reading find)'',
      toStr = Some ''TypeError: Cannot read properties of undefined (reading find)'',
      status = None, responseStatus = None\<rparr>"

fun isInline :: "ResponsePart \<Rightarrow> bool" where
  "isInline (RespInline d) = True"
| "isInline (RespText t) = False"

fun inlineDataOf :: "ResponsePart \<Rightarrow> string option" where
  "inlineDataOf (RespInline d) = d"
| "inlineDataOf (RespText t) = None"

text \<open>\<open>response.candidates?.[0]\<close>\<close>

definition firstCandidate :: "GenerateContentResponse \<Rightarrow> Candidate option" where
  "firstCandidate response =
     (case candidates response of
        None \<Rightarrow> None
      | Some [] \<Rightarrow> None
      | Some (c # cs) \<Rightarrow> Some c)"

definition extractResult :: "GenerateContentResponse \<Rightarrow> Candidate \<Rightarrow> thrown + AIResponse" where
  "extractResult response candidate =
     (let result = \<lparr>aiText = responseText response, aiImage = None,
                     aiGroundingSources = groundingChunks candidate,
                     aiFinishReason = finishReason candidate\<rparr>
      in case content candidate of
           None \<Rightarrow> Inr result
         | Some c \<Rightarrow>
             (case parts c of
                None \<Rightarrow> Inl (Raw partsTypeError)
              | Some ps \<Rightarrow>
                  (case find isInline ps of
                     None \<Rightarrow> Inr result
                   | Some imagePart \<Rightarrow>
                       if truthy (inlineDataOf imagePart)
                       then Inr (result\<lparr>aiImage :=
                              Some (''data:image/png;base64,'' @ the (inlineDataOf imagePart))\<rparr>)
                       else Inr result)))"

text \<open>\<open>parseResponse\<close> of \<open>services/ai-core.ts\<close>; a \<open>throw\<close> is the left injection.\<close>

definition parseResponse :: "GenerateContentResponse \<Rightarrow> thrown + AIResponse" where
  "parseResponse response =
     (if truthy (blockReason response)
      then Inl (App (SafetyError (''PROMPT_BLOCKED: '' @ the (blockReason response))))
      else case firstCandidate response of
        None \<Rightarrow> Inl (App (ApiError ZERO_CANDIDATES 500))
      | Some candidate \<Rightarrow>
          if truthy (finishReason candidate)
             \<and> finishReason candidate \<noteq> Some ''STOP''
             \<and> finishReason candidate \<noteq> Some ''MAX_TOKENS''
          then (if finishReason candidate = Some ''SAFETY''
                then Inl (App (SafetyError GENERATION_BLOCKED))
                else if finishReason candidate = Some ''RECITATION''
                then Inl (App (SafetyError COPYRIGHT_BLOCK))
                else if finishReason candidate = Some ''OTHER''
                then Inl (App (ApiError GENERATION_FAILED 500))
                else Inl (App (ApiError
                       (''GENERATION_STOPPED: '' @ the (finishReason candidate)) 500)))
          else extractResult response candidate)"

section \<open>The environment\<close>

text \<open>
  Everything outside the service is a parameter: the value of \<open>process.env.API_KEY\<close> at
  each read, what the provider answers to each call, what \<open>Math.random()\<close> returns at each
  draw, and the image helpers. Reads, calls and draws are numbered from 0. A provider call
  either throws (left) or returns.
\<close>

record Operation =
  opDone :: bool
  videoUri :: "string option"

record VideoRequest =
  vModel :: AIModel
  vPrompt :: string
  vImageBytes :: string
  vMimeType :: string
  vNumberOfVideos :: nat
  vResolution :: string
  vAspectRatio :: AspectRatio

record Env =
  API_KEY :: "nat \<Rightarrow> string option"
  generateContent :: "nat \<Rightarrow> string \<Rightarrow> GenerateContentRequest \<Rightarrow> thrown + GenerateContentResponse"
  mathRandom :: "nat \<Rightarrow> real"
  utils :: ImageUtils
  generateVideos :: "string \<Rightarrow> VideoRequest \<Rightarrow> thrown + Operation"
  getVideosOperation :: "nat \<Rightarrow> string \<Rightarrow> Operation \<Rightarrow> thrown + Operation"

datatype event = Attempt nat | Sleep real | Submit | Poll

datatype 'a outcome = Returned 'a | Thrown AppError | ThrownUndefined

definition API_KEY_MISSING :: string where
  "API_KEY_MISSING = ''API_KEY_MISSING: Environment key unavailable. Please check your .env configuration.''"

text \<open>\<open>getApiKey\<close>: an undefined or empty key is missing.\<close>

definition getApiKey :: "string option \<Rightarrow> thrown + string" where
  "getApiKey apiKey =
     (if \<not> truthy apiKey then Inl (App (AuthenticationError API_KEY_MISSING))
      else Inr (the apiKey))"

section \<open>generate\<close>

definition DEFAULT_RETRIES :: int where
  "DEFAULT_RETRIES = 3"

text \<open>\<open>executeRequest\<close>: one provider call, then \<open>parseResponse\<close> on its answer.\<close>

definition executeRequest ::
  "Env \<Rightarrow> nat \<Rightarrow> string \<Rightarrow> string \<Rightarrow> string list \<Rightarrow> AIRequestConfig \<Rightarrow> thrown + AIResponse" where
  "executeRequest env n apiKey prompt images config =
     (case generateContent env n apiKey (buildRequest (utils env) prompt images config) of
        Inl error \<Rightarrow> Inl error
      | Inr response \<Rightarrow> parseResponse response)"

text \<open>The body of the \<open>try\<close> block of \<open>generate\<close>, for one attempt.\<close>

definition tryAttempt ::
  "Env \<Rightarrow> string \<Rightarrow> string list \<Rightarrow> AIRequestConfig \<Rightarrow> nat \<Rightarrow> thrown + AIResponse" where
  "tryAttempt env prompt images config attempt =
     (case getApiKey (API_KEY env attempt) of
        Inl error \<Rightarrow> Inl error
      | Inr apiKey \<Rightarrow> executeRequest env attempt apiKey prompt images config)"

text \<open>
  The test "fail immediately on non-transient errors". A \<open>RateLimitError\<close> passes it
  whether or not it is an \<open>ApiError\<close> with code 429.
\<close>

fun nonTransient :: "AppError \<Rightarrow> bool" where
  "nonTransient (SafetyError m) = True"
| "nonTransient (AuthenticationError m) = True"
| "nonTransient (ApiError m statusCode) = (400 \<le> statusCode \<and> statusCode < 500 \<and> statusCode \<noteq> 429)"
| "nonTransient (RateLimitError m) = False"

fun prepend :: "event list \<Rightarrow> event list \<times> 'a \<Rightarrow> event list \<times> 'a" where
  "prepend evs (trace, result) = (evs @ trace, result)"

text \<open>\<open>config.maxRetries ?? this.DEFAULT_RETRIES\<close>\<close>

definition retriesOf :: "AIRequestConfig \<Rightarrow> int" where
  "retriesOf config = (case maxRetries config of Some n \<Rightarrow> n | None \<Rightarrow> DEFAULT_RETRIES)"

text \<open>\<open>Math.pow(2, attempt) * 1000 + (Math.random() * 500)\<close>, in milliseconds.\<close>

definition backoffDelay :: "Env \<Rightarrow> nat \<Rightarrow> real" where
  "backoffDelay env attempt = 2 ^ attempt * 1000 + mathRandom env attempt * 500"

text \<open>
  The \<open>for\<close> loop of \<open>generate\<close>, from a given \<open>attempt\<close> on, with the \<open>lastError\<close> so far.
  The result is the trace of attempts and sleeps and what \<open>generate\<close> returns or throws.
  With negative \<open>retries\<close> the body never runs and \<open>lastError\<close>, still undefined, is
  thrown.
\<close>

function generateLoop ::
  "Env \<Rightarrow> string \<Rightarrow> string list \<Rightarrow> AIRequestConfig \<Rightarrow> int \<Rightarrow> nat \<Rightarrow> AppError option
     \<Rightarrow> event list \<times> AIResponse outcome" where
  "generateLoop env prompt images config retries attempt lastError =
     (if int attempt \<le> retries then
        (case tryAttempt env prompt images config attempt of
           Inr response \<Rightarrow> ([Attempt attempt], Returned response)
         | Inl error \<Rightarrow>
             if nonTransient (normalizeError error)
             then ([Attempt attempt], Thrown (normalizeError error))
             else if int attempt < retries
             then prepend [Attempt attempt, Sleep (backoffDelay env attempt)]
                    (generateLoop env prompt images config retries (Suc attempt)
                       (Some (normalizeError error)))
             else prepend [Attempt attempt]
                    (generateLoop env prompt images config retries (Suc attempt)
                       (Some (normalizeError error))))
      else ([], case lastError of None \<Rightarrow> ThrownUndefined | Some e \<Rightarrow> Thrown e))"
  by pat_completeness auto
termination
  by (relation "measure (\<lambda>(env, prompt, images, config, retries, attempt, lastError).
        nat (retries + 1 - int attempt))") auto

declare generateLoop.simps [simp del]

definition generate ::
  "Env \<Rightarrow> string \<Rightarrow> string list \<Rightarrow> AIRequestConfig \<Rightarrow> event list \<times> AIResponse outcome" where
  "generate env prompt images config =
     generateLoop env prompt images config (retriesOf config) 0 None"

section \<open>generateVideo\<close>

definition MAX_POLLS :: nat where
  "MAX_POLLS = 60"

definition TIMEOUT :: string where
  "TIMEOUT = ''TIMEOUT: Video generation took too long.''"

text \<open>
  The polling loop of \<open>services/ai-core.ts\<close>:
  \<^verbatim>\<open>while (!operation.done) { if (polls++ > MAX_POLLS) throw ...; sleep; re-fetch }\<close>.
  The test compares the counter before the increment.
\<close>

function pollLoop ::
  "Env \<Rightarrow> string \<Rightarrow> Operation \<Rightarrow> nat \<Rightarrow> event list \<times> (thrown + Operation)" where
  "pollLoop env apiKey operation polls =
     (if opDone operation then ([], Inr operation)
      else if polls > MAX_POLLS then ([], Inl (App (ApiError TIMEOUT 408)))
      else case getVideosOperation env polls apiKey operation of
             Inl error \<Rightarrow> ([Sleep 5000, Poll], Inl error)
           | Inr operation' \<Rightarrow>
               prepend [Sleep 5000, Poll] (pollLoop env apiKey operation' (Suc polls)))"
  by pat_completeness auto
termination
  by (relation "measure (\<lambda>(env, apiKey, operation, polls). Suc MAX_POLLS - polls)") auto

declare pollLoop.simps [simp del]

definition videoRequest :: "ImageUtils \<Rightarrow> string \<Rightarrow> string \<Rightarrow> VideoRequest" where
  "videoRequest u prompt img =
     \<lparr>vModel = Veo31FastGeneratePreview, vPrompt = prompt,
      vImageBytes = cleanBase64 u img, vMimeType = getMimeType u img,
      vNumberOfVideos = 1, vResolution = ''720p'', vAspectRatio = R16x9\<rparr>"

text \<open>
  \<open>generateVideo\<close>: whatever the \<open>try\<close> block throws is normalised and thrown again. The
  result is the URI with \<open>&key=\<close> and the key appended, or null (\<open>None\<close>) when the finished
  operation has no URI (undefined or empty).
\<close>

definition generateVideo ::
  "Env \<Rightarrow> string \<Rightarrow> string \<Rightarrow> event list \<times> string option outcome" where
  "generateVideo env prompt img =
     (case getApiKey (API_KEY env 0) of
        Inl error \<Rightarrow> ([], Thrown (normalizeError error))
      | Inr apiKey \<Rightarrow>
          (case generateVideos env apiKey (videoRequest (utils env) prompt img) of
             Inl error \<Rightarrow> ([Submit], Thrown (normalizeError error))
           | Inr operation \<Rightarrow>
               (case pollLoop env apiKey operation 0 of
                  (trace, Inl error) \<Rightarrow> (Submit # trace, Thrown (normalizeError error))
                | (trace, Inr operation') \<Rightarrow>
                    (Submit # trace,
                     Returned (if truthy (videoUri operation')
                               then Some (the (videoUri operation') @ ''&key='' @ apiKey)
                               else None)))))"

section \<open>The other copy of the polling loop\<close>

text \<open>
  The repository holds a second copy of the service (\<open>src/unnamed/part_003\<close>), whose
  polling loop is a \<open>for\<close> loop:
  \<^verbatim>\<open>for (let i = 0; i < MAX_POLLS; i++) { if (operation.done) return ...; sleep; re-fetch }\<close>
  followed by the throw of the timeout error. Here \<open>Inr\<close> carries the finished operation.
\<close>

function pollLoopFor ::
  "Env \<Rightarrow> string \<Rightarrow> Operation \<Rightarrow> nat \<Rightarrow> event list \<times> (thrown + Operation)" where
  "pollLoopFor env apiKey operation i =
     (if i < MAX_POLLS then
        (if opDone operation then ([], Inr operation)
         else case getVideosOperation env i apiKey operation of
                Inl error \<Rightarrow> ([Sleep 5000, Poll], Inl error)
              | Inr operation' \<Rightarrow>
                  prepend [Sleep 5000, Poll] (pollLoopFor env apiKey operation' (Suc i)))
      else ([], Inl (App (ApiError TIMEOUT 408))))"
  by pat_completeness auto
termination
  by (relation "measure (\<lambda>(env, apiKey, operation, i). MAX_POLLS - i)") auto

declare pollLoopFor.simps [simp del]

section \<open>Kinds of classified errors\<close>

text \<open>
  Modelled from the spec: the eight kinds of the error taxonomy. The code has no kinds; it
  has the classes and the status codes that \<open>normalizeError\<close> assigns: 404 to an
  unavailable model, 503 to an overloaded server, 0 to a network failure, 400 to an invalid
  request, and the status of the failure (500 without one) to everything else. An
  \<open>ApiError\<close> with code 429, which \<open>generate\<close> exempts from failing fast, counts as rate
  limited.
\<close>

datatype ErrorKind =
    RateLimited
  | AuthenticationFailed
  | SafetyBlocked
  | ModelUnavailable
  | ServerOverloaded
  | NetworkUnreachable
  | InvalidRequest
  | Unknown

fun kindOf :: "AppError \<Rightarrow> ErrorKind" where
  "kindOf (RateLimitError m) = RateLimited"
| "kindOf (AuthenticationError m) = AuthenticationFailed"
| "kindOf (SafetyError m) = SafetyBlocked"
| "kindOf (ApiError m statusCode) =
     (if statusCode = 429 then RateLimited
      else if statusCode = 404 then ModelUnavailable
      else if statusCode = 503 then ServerOverloaded
      else if statusCode = 0 then NetworkUnreachable
      else if statusCode = 400 then InvalidRequest
      else Unknown)"

fun statusCodeOf :: "AppError \<Rightarrow> int option" where
  "statusCodeOf (ApiError m statusCode) = Some statusCode"
| "statusCodeOf (AuthenticationError m) = None"
| "statusCodeOf (SafetyError m) = None"
| "statusCodeOf (RateLimitError m) = None"

section \<open>Traces\<close>

text \<open>
  The trace of a run of \<open>generate\<close> that makes the attempts \<open>a0, ..., k\<close> and sleeps
  after each of them but the last.
\<close>

definition retryTrace :: "Env \<Rightarrow> nat \<Rightarrow> nat \<Rightarrow> event list" where
  "retryTrace env a0 k =
     concat (map (\<lambda>a. [Attempt a, Sleep (backoffDelay env a)]) [a0..<k]) @ [Attempt k]"

fun isAttempt :: "event \<Rightarrow> bool" where
  "isAttempt (Attempt a) = True"
| "isAttempt (Sleep d) = False"
| "isAttempt Submit = False"
| "isAttempt Poll = False"

fun isSleep :: "event \<Rightarrow> bool" where
  "isSleep (Sleep d) = True"
| "isSleep (Attempt a) = False"
| "isSleep Submit = False"
| "isSleep Poll = False"

fun isPoll :: "event \<Rightarrow> bool" where
  "isPoll Poll = True"
| "isPoll (Attempt a) = False"
| "isPoll (Sleep d) = False"
| "isPoll Submit = False"

fun isTextPart :: "Part \<Rightarrow> bool" where
  "isTextPart (TextPart t) = True"
| "isTextPart (InlineData d m) = False"

section \<open>Sample inputs\<close>

definition sampleUtils :: ImageUtils where
  "sampleUtils = \<lparr>cleanBase64 = (\<lambda>s. s), getMimeType = (\<lambda>s. ''image/png'')\<rparr>"

definition cfgBase :: AIRequestConfig where
  "cfgBase =
     \<lparr>model = Gemini25FlashImage, aspectRatio = None, imageSize = None,
      thinkingBudget = None, maxOutputTokens = None, useSearch = None,
      systemInstruction = None, responseMimeType = None, maxRetries = None,
      seed = None, temperature = None\<rparr>"

text \<open>
  An environment with the key \<open>SECRET\<close>, a provider that answers the n-th call of
  \<open>generateContent\<close> by \<open>answer n\<close>, a constant \<open>Math.random()\<close> of 1/4, and a video job
  that is never done.
\<close>

definition sampleEnv :: "(nat \<Rightarrow> thrown + GenerateContentResponse) \<Rightarrow> Env" where
  "sampleEnv answer =
     \<lparr>API_KEY = (\<lambda>n. Some ''SECRET''),
      generateContent = (\<lambda>n apiKey request. answer n),
      mathRandom = (\<lambda>n. 1 / 4),
      utils = sampleUtils,
      generateVideos = (\<lambda>apiKey request. Inr \<lparr>opDone = False, videoUri = None\<rparr>),
      getVideosOperation = (\<lambda>n apiKey operation. Inr \<lparr>opDone = False, videoUri = None\<rparr>)\<rparr>"

definition failingEnv :: "RawError \<Rightarrow> Env" where
  "failingEnv r = sampleEnv (\<lambda>n. Inl (Raw r))"

definition answeringEnv :: "GenerateContentResponse \<Rightarrow> Env" where
  "answeringEnv response = sampleEnv (\<lambda>n. Inr response)"

definition noKeyEnv :: Env where
  "noKeyEnv = (failingEnv \<lparr>message = None, toStr = None, status = None, responseStatus = None\<rparr>)
     \<lparr>API_KEY := (\<lambda>n. None)\<rparr>"

text \<open>A video job that is done at submission, with the given URI.\<close>

definition doneVideoEnv :: "string option \<Rightarrow> Env" where
  "doneVideoEnv uri =
     (sampleEnv (\<lambda>n. Inl (Raw \<lparr>message = None, toStr = None, status = None, responseStatus = None\<rparr>)))
       \<lparr>generateVideos := (\<lambda>apiKey request. Inr \<lparr>opDone = True, videoUri = uri\<rparr>)\<rparr>"

definition notFound404 :: RawError where
  "notFound404 =
     \<lparr>message = Some ''model gone'', toStr = None, status = Some 404, responseStatus = None\<rparr>"

definition unavailable503 :: RawError where
  "unavailable503 =
     \<lparr>message = Some ''service unavailable'', toStr = None, status = Some 503,
      responseStatus = None\<rparr>"

definition unauthorized401 :: RawError where
  "unauthorized401 =
     \<lparr>message = Some ''unauthorized'', toStr = None, status = Some 401, responseStatus = None\<rparr>"

definition zeroCandidates :: GenerateContentResponse where
  "zeroCandidates = \<lparr>candidates = Some [], blockReason = None, responseText = None\<rparr>"

definition neverDoneEnv :: Env where
  "neverDoneEnv = failingEnv unavailable503"

section \<open>Retried and terminal kinds\<close>

text \<open>
  The kinds that \<open>generate\<close> of \<open>services/ai-core.ts\<close> gives up on at once, and the kinds
  it tries again, with the client-error codes (400 to 499) among the unknown ones.
\<close>

definition clientCode :: "AppError \<Rightarrow> bool" where
  "clientCode e = (case statusCodeOf e of Some c \<Rightarrow> 400 \<le> c \<and> c < 500 | None \<Rightarrow> False)"

definition terminalKind :: "AppError \<Rightarrow> bool" where
  "terminalKind e =
     (kindOf e \<in> {AuthenticationFailed, SafetyBlocked, InvalidRequest, ModelUnavailable}
      \<or> (kindOf e = Unknown \<and> clientCode e))"

definition retriedKind :: "AppError \<Rightarrow> bool" where
  "retriedKind e =
     (kindOf e \<in> {RateLimited, ServerOverloaded, NetworkUnreachable}
      \<or> (kindOf e = Unknown \<and> \<not> clientCode e))"

section \<open>Properties of the classifier\<close>

lemma startsWith_map: "startsWith s p \<Longrightarrow> startsWith (map f s) (map f p)"
  by (induction s p rule: startsWith.induct) auto

lemma includes_map: "includesStr s p \<Longrightarrow> includesStr (map f s) (map f p)"
proof (induction s)
  case Nil
  then show ?case by simp
next
  case (Cons c cs)
  from Cons.prems have "startsWith (c # cs) p \<or> includesStr cs p" by simp
  then show ?case
  proof
    assume "startsWith (c # cs) p"
    from startsWith_map [OF this, of f] show ?thesis by simp
  next
    assume "includesStr cs p"
    with Cons.IH show ?thesis by simp
  qed
qed

lemma toLowerCase_billing: "toLowerCase ''billing'' = ''billing''"
  by (simp add: toLowerCase_def lowerChar_def)

lemma includes_lower_billing:
  "includesStr m ''billing'' \<Longrightarrow> includesStr (toLowerCase m) ''billing''"
  using includes_map [of m "''billing''" lowerChar] toLowerCase_billing
  by (simp add: toLowerCase_def)

text \<open>
  The kinds read off the class and code agree with the rules of \<open>normalizeError\<close>: a raw
  failure gets a kind exactly when the rule of that kind fires.
\<close>

lemma classifyRaw_RateLimited:
  "kindOf (classifyRaw r) = RateLimited \<longleftrightarrow> classifyRaw r = RateLimitError None"
  by (simp add: classifyRaw_def Let_def split: option.splits)

lemma classifyRaw_ModelUnavailable:
  "kindOf (classifyRaw r) = ModelUnavailable \<longleftrightarrow>
     classifyRaw r = ApiError MODEL_UNAVAILABLE 404"
  by (simp add: classifyRaw_def Let_def split: option.splits)

lemma classifyRaw_ServerOverloaded:
  "kindOf (classifyRaw r) = ServerOverloaded \<longleftrightarrow>
     classifyRaw r = ApiError SYSTEM_OVERLOAD 503"
  by (simp add: classifyRaw_def Let_def split: option.splits)

lemma classifyRaw_NetworkUnreachable:
  "kindOf (classifyRaw r) = NetworkUnreachable \<longleftrightarrow>
     classifyRaw r = ApiError NETWORK_ERROR 0"
  by (simp add: classifyRaw_def Let_def split: option.splits)

lemma classifyRaw_InvalidRequest:
  "kindOf (classifyRaw r) = InvalidRequest \<longleftrightarrow>
     classifyRaw r = ApiError INVALID_IMAGE 400 \<or> classifyRaw r = ApiError INVALID_REQUEST 400"
  by (simp add: classifyRaw_def Let_def split: option.splits)

text \<open>
  C6. The classifier is idempotent: classifying the error it has returned gives that
  error back, with the same class, message and code.
\<close>

theorem normalizeError_idempotent:
  "normalizeError (App (normalizeError x)) = normalizeError x
   \<and> normalizeError (App e) = e"
  by simp

text \<open>
  C7 as stated fails: the rate-limit rule and the invalid-key rule come before the
  permission rule, so a 403 whose message mentions billing and also a quota is a
  \<open>RateLimitError\<close>, not the billing \<open>AuthenticationError\<close>.
\<close>

theorem billing_403_quota_counterexample:
  "status billingQuota403 = Some 403
   \<and> statusOf billingQuota403 = Some 403
   \<and> message billingQuota403 = Some ''billing quota exceeded''
   \<and> includesStr ''billing quota exceeded'' ''billing''
   \<and> normalizeError (Raw billingQuota403) = RateLimitError None
   \<and> normalizeError (Raw billingQuota403) \<noteq> AuthenticationError BILLING_REQUIRED"
  by (simp add: billingQuota403_def classifyRaw_def rawMessageOf_def statusOf_def
        toLowerCase_def lowerChar_def)

text \<open>
  C7, amended. For every raw failure with status 403 (its own, or that of its response
  when it has none) whose message contains "billing" and
  whose lower-cased message contains none of "429", "quota", "exhausted", "api key" and
  "unauthenticated" (the rules that come first), the classifier returns an
  \<open>AuthenticationError\<close> with the billing-specific message, whatever else the message
  says.
\<close>

theorem billing_403_classified:
  assumes "statusOf r = Some 403"
    and "message r = Some m"
    and "includesStr m ''billing''"
    and "\<not> includesStr (toLowerCase m) ''429''"
    and "\<not> includesStr (toLowerCase m) ''quota''"
    and "\<not> includesStr (toLowerCase m) ''exhausted''"
    and "\<not> includesStr (toLowerCase m) ''api key''"
    and "\<not> includesStr (toLowerCase m) ''unauthenticated''"
  shows "normalizeError (Raw r) = AuthenticationError BILLING_REQUIRED"
proof -
  have ne: "m \<noteq> []" using assms(3) by (cases m) auto
  have msg: "rawMessageOf r = m" using assms(2) ne by (simp add: rawMessageOf_def)
  have st: "statusOf r = Some 403" using assms(1) .
  have bill: "includesStr (toLowerCase m) ''billing''"
    using assms(3) by (rule includes_lower_billing)
  show ?thesis
    using assms(4-8) bill by (simp add: classifyRaw_def msg st)
qed

theorem billing_403_classified_witness:
  "normalizeError (Raw \<lparr>message = Some ''Permission denied: BILLING disabled, enable billing'',
       toStr = None, status = Some 403, responseStatus = None\<rparr>)
     = AuthenticationError BILLING_REQUIRED"
proof (rule billing_403_classified
    [where m = "''Permission denied: BILLING disabled, enable billing''"])
  show "includesStr ''Permission denied: BILLING disabled, enable billing'' ''billing''"
    by simp
  show "\<not> includesStr (toLowerCase ''Permission denied: BILLING disabled, enable billing'') ''429''"
    by code_simp
  show "\<not> includesStr (toLowerCase ''Permission denied: BILLING disabled, enable billing'') ''quota''"
    by code_simp
  show "\<not> includesStr (toLowerCase ''Permission denied: BILLING disabled, enable billing'') ''exhausted''"
    by code_simp
  show "\<not> includesStr (toLowerCase ''Permission denied: BILLING disabled, enable billing'') ''api key''"
    by code_simp
  show "\<not> includesStr (toLowerCase ''Permission denied: BILLING disabled, enable billing'') ''unauthenticated''"
    by code_simp
qed (simp_all add: statusOf_def)

section \<open>The request that executeRequest assembles\<close>

text \<open>
  The general shape of the token budget, for every integer the configuration can hold:
  where \<open>thinkingBudget\<close> is set, a non-zero \<open>maxOutputTokens\<close> is raised to at least
  \<open>thinkingBudget + 1024\<close>, and an unset or zero one (the code tests truthiness) becomes
  \<open>thinkingBudget + 2048\<close>.
\<close>

lemma effectiveMaxOutputTokens_thinking:
  "thinkingBudget config = Some budget \<Longrightarrow>
   effectiveMaxOutputTokens config =
     (case maxOutputTokens config of
        Some m \<Rightarrow> if m \<noteq> 0 then Some (max m (budget + 1024)) else Some (budget + 2048)
      | None \<Rightarrow> Some (budget + 2048))"
  by (simp add: effectiveMaxOutputTokens_def)

text \<open>
  C1. The spec has \<open>maxOutputTokens\<close> as an optional positive integer. For every
  configuration in which \<open>thinkingBudget\<close> is set and \<open>maxOutputTokens\<close>, if set, is
  positive, the request that \<open>executeRequest\<close> assembles carries
  \<open>max(maxOutputTokens, thinkingBudget + 1024)\<close> when \<open>maxOutputTokens\<close> is set and
  \<open>thinkingBudget + 2048\<close> when it is unset. The witness has the two instances of the
  claim: a budget of 1000 alone gives 3048, and with \<open>maxOutputTokens = 500\<close> it gives
  2024.
\<close>

theorem thinking_budget_effective_tokens:
  assumes "thinkingBudget config = Some budget"
    and "\<forall>m. maxOutputTokens config = Some m \<longrightarrow> 0 < m"
  shows "(\<forall>m. maxOutputTokens config = Some m \<longrightarrow>
            gcMaxOutputTokens (reqConfig (buildRequest u prompt images config))
              = Some (max m (budget + 1024)))
       \<and> (maxOutputTokens config = None \<longrightarrow>
            gcMaxOutputTokens (reqConfig (buildRequest u prompt images config))
              = Some (budget + 2048))"
proof (intro conjI allI impI)
  fix m
  assume m: "maxOutputTokens config = Some m"
  with assms(2) have "m \<noteq> 0" by auto
  with m assms(1)
  show "gcMaxOutputTokens (reqConfig (buildRequest u prompt images config))
          = Some (max m (budget + 1024))"
    by (simp add: buildRequest_def buildGenerationConfig_def effectiveMaxOutputTokens_thinking)
next
  assume "maxOutputTokens config = None"
  with assms(1)
  show "gcMaxOutputTokens (reqConfig (buildRequest u prompt images config))
          = Some (budget + 2048)"
    by (simp add: buildRequest_def buildGenerationConfig_def effectiveMaxOutputTokens_thinking)
qed

theorem thinking_budget_effective_tokens_witness:
  "gcMaxOutputTokens (reqConfig (buildRequest sampleUtils ''p'' []
      (cfgBase\<lparr>thinkingBudget := Some 1000\<rparr>))) = Some 3048
   \<and> gcMaxOutputTokens (reqConfig (buildRequest sampleUtils ''p'' []
      (cfgBase\<lparr>thinkingBudget := Some 1000, maxOutputTokens := Some 500\<rparr>))) = Some 2024"
  using thinking_budget_effective_tokens
          [of "cfgBase\<lparr>thinkingBudget := Some 1000\<rparr>" 1000 sampleUtils "''p''" "[]"]
        thinking_budget_effective_tokens
          [of "cfgBase\<lparr>thinkingBudget := Some 1000, maxOutputTokens := Some 500\<rparr>" 1000
              sampleUtils "''p''" "[]"]
  by (simp add: cfgBase_def)

text \<open>
  The general shape of the payload, for every list of strings: \<open>filter(Boolean)\<close> keeps
  the entries that are not the empty string, each of them becomes an inline-data part, and
  one text part follows.
\<close>

lemma reqParts_buildRequest:
  "reqParts (buildRequest u prompt images config)
     = map (\<lambda>img. InlineData (cleanBase64 u img) (getMimeType u img))
         (filter (\<lambda>img. img \<noteq> []) images)
       @ [TextPart (if prompt = [] then ''Analyze input assets.'' else prompt)]"
  by (simp add: buildRequest_def buildParts_def)

lemma filter_nonempty_all: "[] \<notin> set images \<Longrightarrow> filter (\<lambda>img. img \<noteq> []) images = images"
  by (induction images) auto

lemma no_text_among_inline:
  "filter isTextPart (map (\<lambda>img. InlineData (cleanBase64 u img) (getMimeType u img)) xs) = []"
  by (induction xs) simp_all

text \<open>
  C9. The spec has an image as a payload of raw bytes with a media type, so a supplied
  image is not the empty string. For every call in which no supplied image is empty, the
  payload has one inline-data part (cleaned data and media type) for each supplied image, in
  the order supplied, followed by exactly one text part: the prompt, or
  "Analyze input assets." when the prompt is the empty string.
\<close>

theorem payload_parts:
  assumes "[] \<notin> set images"
  shows "reqParts (buildRequest u prompt images config)
           = map (\<lambda>img. InlineData (cleanBase64 u img) (getMimeType u img)) images
             @ [TextPart (if prompt = [] then ''Analyze input assets.'' else prompt)]
       \<and> length (reqParts (buildRequest u prompt images config)) = length images + 1
       \<and> length (filter isTextPart (reqParts (buildRequest u prompt images config))) = 1"
  using assms
  by (simp add: reqParts_buildRequest filter_nonempty_all no_text_among_inline)

theorem payload_parts_witness:
  "reqParts (buildRequest sampleUtils [] [''aGk='', ''eW8=''] cfgBase)
     = [InlineData ''aGk='' ''image/png'', InlineData ''eW8='' ''image/png'',
        TextPart ''Analyze input assets.'']
   \<and> reqParts (buildRequest sampleUtils ''Add a HUD'' [''aGk=''] cfgBase)
     = [InlineData ''aGk='' ''image/png'', TextPart ''Add a HUD'']"
  using payload_parts [of "[''aGk='', ''eW8='']" sampleUtils "[]" cfgBase]
        payload_parts [of "[''aGk='']" sampleUtils "''Add a HUD''" cfgBase]
  by (simp add: sampleUtils_def)

section \<open>The loop of generate\<close>

lemma generateLoop_past_end:
  "\<not> int a \<le> retries \<Longrightarrow>
   generateLoop env p i c retries a le
     = ([], case le of None \<Rightarrow> ThrownUndefined | Some e \<Rightarrow> Thrown e)"
  by (subst generateLoop.simps) simp

lemma generateLoop_success:
  "int a \<le> retries \<Longrightarrow> tryAttempt env p i c a = Inr r \<Longrightarrow>
   generateLoop env p i c retries a le = ([Attempt a], Returned r)"
  by (subst generateLoop.simps) simp

lemma generateLoop_fail_fast:
  "int a \<le> retries \<Longrightarrow> tryAttempt env p i c a = Inl t \<Longrightarrow>
   nonTransient (normalizeError t) \<Longrightarrow>
   generateLoop env p i c retries a le = ([Attempt a], Thrown (normalizeError t))"
  by (subst generateLoop.simps) simp

lemma generateLoop_retry:
  "int a < retries \<Longrightarrow> tryAttempt env p i c a = Inl t \<Longrightarrow>
   \<not> nonTransient (normalizeError t) \<Longrightarrow>
   generateLoop env p i c retries a le
     = prepend [Attempt a, Sleep (backoffDelay env a)]
         (generateLoop env p i c retries (Suc a) (Some (normalizeError t)))"
  by (subst generateLoop.simps) simp

lemma generateLoop_exhausted:
  "int a = retries \<Longrightarrow> tryAttempt env p i c a = Inl t \<Longrightarrow>
   \<not> nonTransient (normalizeError t) \<Longrightarrow>
   generateLoop env p i c retries a le = ([Attempt a], Thrown (normalizeError t))"
  by (subst generateLoop.simps) (simp add: generateLoop_past_end)

lemma retryTrace_same: "retryTrace env k k = [Attempt k]"
  by (simp add: retryTrace_def)

lemma retryTrace_step:
  "a0 < k \<Longrightarrow>
   retryTrace env a0 k = Attempt a0 # Sleep (backoffDelay env a0) # retryTrace env (Suc a0) k"
  by (simp add: retryTrace_def upt_conv_Cons)

text \<open>
  A run in which the attempts before \<open>k\<close> fail with errors that pass the non-transient
  test, and attempt \<open>k\<close> fails with an error that does not pass it or is the last attempt
  allowed: the trace is \<open>retryTrace\<close> and the error of attempt \<open>k\<close> is thrown.
\<close>

lemma generateLoop_run_throws:
  assumes "retries = int n" and "k \<le> n"
    and "tryAttempt env p i c k = Inl t"
    and "nonTransient (normalizeError t) \<or> k = n"
  shows "a0 \<le> k \<Longrightarrow>
    (\<forall>a. a0 \<le> a \<and> a < k \<longrightarrow>
       (\<exists>t'. tryAttempt env p i c a = Inl t' \<and> \<not> nonTransient (normalizeError t'))) \<Longrightarrow>
    generateLoop env p i c retries a0 le = (retryTrace env a0 k, Thrown (normalizeError t))"
proof (induction "k - a0" arbitrary: a0 le)
  case 0
  then have eq: "a0 = k" by simp
  show ?case
  proof (cases "nonTransient (normalizeError t)")
    case True
    then show ?thesis
      using assms eq by (simp add: generateLoop_fail_fast retryTrace_same)
  next
    case False
    with assms(4) have "k = n" by simp
    then show ?thesis
      using assms False eq by (simp add: generateLoop_exhausted retryTrace_same)
  qed
next
  case (Suc d)
  then have lt: "a0 < k" by simp
  with Suc.prems obtain t' where
    t': "tryAttempt env p i c a0 = Inl t'" "\<not> nonTransient (normalizeError t')"
    by auto
  have "int a0 < retries" using lt assms(1,2) by simp
  then have step: "generateLoop env p i c retries a0 le
      = prepend [Attempt a0, Sleep (backoffDelay env a0)]
          (generateLoop env p i c retries (Suc a0) (Some (normalizeError t')))"
    using t' by (rule generateLoop_retry)
  have "generateLoop env p i c retries (Suc a0) (Some (normalizeError t'))
      = (retryTrace env (Suc a0) k, Thrown (normalizeError t))"
    using Suc.hyps Suc.prems lt by (intro Suc.hyps(1)) auto
  then show ?case
    using step lt by (simp add: retryTrace_step)
qed

lemma count_attempts_retryTrace:
  "a0 \<le> k \<Longrightarrow> length (filter isAttempt (retryTrace env a0 k)) = k - a0 + 1"
proof (induction "k - a0" arbitrary: a0)
  case 0
  then show ?case by (simp add: retryTrace_same)
next
  case (Suc d)
  then have "a0 < k" by simp
  moreover have "length (filter isAttempt (retryTrace env (Suc a0) k)) = k - Suc a0 + 1"
    using Suc by (intro Suc.hyps(1)) auto
  ultimately show ?case by (simp add: retryTrace_step)
qed

lemma count_sleeps_retryTrace:
  "a0 \<le> k \<Longrightarrow> length (filter isSleep (retryTrace env a0 k)) = k - a0"
proof (induction "k - a0" arbitrary: a0)
  case 0
  then show ?case by (simp add: retryTrace_same)
next
  case (Suc d)
  then have "a0 < k" by simp
  moreover have "length (filter isSleep (retryTrace env (Suc a0) k)) = k - Suc a0"
    using Suc by (intro Suc.hyps(1)) auto
  ultimately show ?case by (simp add: retryTrace_step)
qed

lemma nonTransient_terminalKind: "nonTransient e = terminalKind e"
  by (cases e) (auto simp: terminalKind_def clientCode_def)

lemma nonTransient_retriedKind: "(\<not> nonTransient e) = retriedKind e"
  by (cases e) (auto simp: retriedKind_def clientCode_def)

subsection \<open>The sample environments\<close>

lemma tryAttempt_failingEnv: "tryAttempt (failingEnv r) p i c a = Inl (Raw r)"
  by (simp add: tryAttempt_def failingEnv_def sampleEnv_def getApiKey_def executeRequest_def)

lemma tryAttempt_answeringEnv: "tryAttempt (answeringEnv resp) p i c a = parseResponse resp"
  by (simp add: tryAttempt_def answeringEnv_def sampleEnv_def getApiKey_def executeRequest_def)

lemma normalize_unauthorized401:
  "classifyRaw unauthorized401 = AuthenticationError INVALID_API_KEY"
  by (simp add: unauthorized401_def classifyRaw_def rawMessageOf_def statusOf_def
        toLowerCase_def lowerChar_def)

lemma normalize_unavailable503:
  "classifyRaw unavailable503 = ApiError SYSTEM_OVERLOAD 503"
  by (simp add: unavailable503_def classifyRaw_def rawMessageOf_def statusOf_def
        toLowerCase_def lowerChar_def)

lemma normalize_notFound404:
  "classifyRaw notFound404 = ApiError MODEL_UNAVAILABLE 404"
  by (simp add: notFound404_def classifyRaw_def rawMessageOf_def statusOf_def
        toLowerCase_def lowerChar_def)

lemma retriesOf_cfgBase: "retriesOf (cfgBase\<lparr>maxRetries := Some n\<rparr>) = n"
  by (simp add: retriesOf_def cfgBase_def)

lemma noKeyEnv_key: "API_KEY noKeyEnv n = None"
  by (simp add: noKeyEnv_def)

lemma parse_zero_candidates:
  "\<not> truthy (blockReason response) \<Longrightarrow> firstCandidate response = None \<Longrightarrow>
   parseResponse response = Inl (App (ApiError ZERO_CANDIDATES 500))"
  by (simp add: parseResponse_def)

section \<open>Which failures generate retries\<close>

text \<open>
  C2 as stated fails for an unavailable model: its error carries the code 404, which the
  test for non-transient errors (codes 400 to 499 other than 429) catches, so \<open>generate\<close>
  with \<open>maxRetries = 2\<close> makes one attempt and throws.
\<close>

theorem model_unavailable_not_retried_counterexample:
  "kindOf (normalizeError (Raw notFound404)) = ModelUnavailable
   \<and> retriesOf (cfgBase\<lparr>maxRetries := Some 2\<rparr>) = 2
   \<and> generate (failingEnv notFound404) ''p'' [] (cfgBase\<lparr>maxRetries := Some 2\<rparr>)
       = ([Attempt 0], Thrown (ApiError MODEL_UNAVAILABLE 404))"
  by (simp add: normalize_notFound404 retriesOf_cfgBase generate_def generateLoop_fail_fast
        tryAttempt_failingEnv)

text \<open>
  C2, amended. With \<open>maxRetries = n\<close>: a failure whose kind is RateLimited,
  ServerOverloaded or NetworkUnreachable, or Unknown with a code outside 400 to 499, is
  retried after a backoff sleep as long as fewer than \<open>n\<close> retries have been made;
  a failure whose kind is AuthenticationFailed, SafetyBlocked, InvalidRequest or
  ModelUnavailable, or Unknown with a code from 400 to 499, is thrown at once. So when the
  attempts before \<open>k \<le> n\<close> fail with retried kinds and attempt \<open>k\<close> fails with a
  terminal kind, or with a retried kind at \<open>k = n\<close>, the run makes exactly \<open>k + 1\<close>
  attempts and \<open>k\<close> sleeps and throws the error of attempt \<open>k\<close>.
\<close>

theorem generate_retry_policy:
  assumes "retriesOf config = int n"
    and "k \<le> n"
    and "\<forall>a<k. \<exists>t'. tryAttempt env prompt images config a = Inl t'
                   \<and> retriedKind (normalizeError t')"
    and "tryAttempt env prompt images config k = Inl t"
    and "terminalKind (normalizeError t) \<or> (retriedKind (normalizeError t) \<and> k = n)"
  shows "generate env prompt images config = (retryTrace env 0 k, Thrown (normalizeError t))
       \<and> length (filter isAttempt (fst (generate env prompt images config))) = k + 1
       \<and> length (filter isSleep (fst (generate env prompt images config))) = k"
proof -
  have "generateLoop env prompt images config (retriesOf config) 0 None
      = (retryTrace env 0 k, Thrown (normalizeError t))"
    by (rule generateLoop_run_throws [where n = n])
       (use assms in \<open>auto simp: nonTransient_terminalKind nonTransient_retriedKind [symmetric]\<close>)
  then show ?thesis
    by (simp add: generate_def count_attempts_retryTrace count_sleeps_retryTrace)
qed

theorem generate_retry_policy_witness:
  "generate (failingEnv unavailable503) ''p'' [] (cfgBase\<lparr>maxRetries := Some 2\<rparr>)
     = (retryTrace (failingEnv unavailable503) 0 2, Thrown (ApiError SYSTEM_OVERLOAD 503))
   \<and> length (filter isAttempt
        (fst (generate (failingEnv unavailable503) ''p'' [] (cfgBase\<lparr>maxRetries := Some 2\<rparr>)))) = 3
   \<and> length (filter isSleep
        (fst (generate (failingEnv unavailable503) ''p'' [] (cfgBase\<lparr>maxRetries := Some 2\<rparr>)))) = 2
   \<and> generate (failingEnv notFound404) ''p'' [] (cfgBase\<lparr>maxRetries := Some 2\<rparr>)
     = ([Attempt 0], Thrown (ApiError MODEL_UNAVAILABLE 404))"
proof -
  have r: "retriesOf (cfgBase\<lparr>maxRetries := Some 2\<rparr>) = int 2"
    by (simp add: retriesOf_cfgBase)
  have k: "(2::nat) \<le> 2" by simp
  have before: "\<forall>a<2. \<exists>t'. tryAttempt (failingEnv unavailable503) ''p'' []
                    (cfgBase\<lparr>maxRetries := Some 2\<rparr>) a = Inl t'
                  \<and> retriedKind (normalizeError t')"
    by (simp add: tryAttempt_failingEnv normalize_unavailable503 retriedKind_def)
  have at: "tryAttempt (failingEnv unavailable503) ''p'' []
              (cfgBase\<lparr>maxRetries := Some 2\<rparr>) 2 = Inl (Raw unavailable503)"
    by (simp add: tryAttempt_failingEnv)
  have kind: "terminalKind (normalizeError (Raw unavailable503))
              \<or> (retriedKind (normalizeError (Raw unavailable503)) \<and> (2::nat) = 2)"
    by (simp add: normalize_unavailable503 retriedKind_def)
  have run503:
    "generate (failingEnv unavailable503) ''p'' [] (cfgBase\<lparr>maxRetries := Some 2\<rparr>)
       = (retryTrace (failingEnv unavailable503) 0 2, Thrown (ApiError SYSTEM_OVERLOAD 503))
     \<and> length (filter isAttempt
          (fst (generate (failingEnv unavailable503) ''p'' [] (cfgBase\<lparr>maxRetries := Some 2\<rparr>)))) = 3
     \<and> length (filter isSleep
          (fst (generate (failingEnv unavailable503) ''p'' [] (cfgBase\<lparr>maxRetries := Some 2\<rparr>)))) = 2"
    using generate_retry_policy [OF r k before at kind]
    by (simp add: normalize_unavailable503 count_attempts_retryTrace count_sleeps_retryTrace)
  have k0: "(0::nat) \<le> 2" by simp
  have before0: "\<forall>a<0. \<exists>t'. tryAttempt (failingEnv notFound404) ''p'' []
                    (cfgBase\<lparr>maxRetries := Some 2\<rparr>) a = Inl t'
                  \<and> retriedKind (normalizeError t')"
    by simp
  have at0: "tryAttempt (failingEnv notFound404) ''p'' []
              (cfgBase\<lparr>maxRetries := Some 2\<rparr>) 0 = Inl (Raw notFound404)"
    by (simp add: tryAttempt_failingEnv)
  have kind0: "terminalKind (normalizeError (Raw notFound404))
              \<or> (retriedKind (normalizeError (Raw notFound404)) \<and> (0::nat) = 2)"
    by (simp add: normalize_notFound404 terminalKind_def)
  have run404:
    "generate (failingEnv notFound404) ''p'' [] (cfgBase\<lparr>maxRetries := Some 2\<rparr>)
       = ([Attempt 0], Thrown (ApiError MODEL_UNAVAILABLE 404))"
    using generate_retry_policy [OF r k0 before0 at0 kind0]
    by (simp add: normalize_notFound404 retryTrace_same)
  from run503 run404 show ?thesis by blast
qed

text \<open>
  C3. When \<open>maxRetries\<close> (or the default) is not negative, so that a first attempt is made:
  if that attempt fails with an error that classifies as AuthenticationFailed, \<open>generate\<close>
  makes exactly that one attempt, does not sleep, and throws the error; and when the key is
  missing (undefined or empty) at that attempt, the same holds with the missing-key
  \<open>AuthenticationError\<close>. The witness takes \<open>maxRetries = 5\<close>.
\<close>

theorem generate_auth_single_attempt:
  assumes "0 \<le> retriesOf config"
  shows "(\<forall>t. tryAttempt env prompt images config 0 = Inl t
              \<and> kindOf (normalizeError t) = AuthenticationFailed
            \<longrightarrow> generate env prompt images config = ([Attempt 0], Thrown (normalizeError t)))
       \<and> (\<not> truthy (API_KEY env 0)
            \<longrightarrow> generate env prompt images config
                  = ([Attempt 0], Thrown (AuthenticationError API_KEY_MISSING)))"
proof (intro conjI allI impI)
  fix t
  assume a: "tryAttempt env prompt images config 0 = Inl t
             \<and> kindOf (normalizeError t) = AuthenticationFailed"
  then have "nonTransient (normalizeError t)"
    by (simp add: nonTransient_terminalKind terminalKind_def)
  with a assms show "generate env prompt images config = ([Attempt 0], Thrown (normalizeError t))"
    by (simp add: generate_def generateLoop_fail_fast)
next
  assume "\<not> truthy (API_KEY env 0)"
  then have "tryAttempt env prompt images config 0 = Inl (App (AuthenticationError API_KEY_MISSING))"
    by (simp add: tryAttempt_def getApiKey_def)
  with assms show "generate env prompt images config
      = ([Attempt 0], Thrown (AuthenticationError API_KEY_MISSING))"
    by (simp add: generate_def generateLoop_fail_fast)
qed

theorem generate_auth_single_attempt_witness:
  "generate (failingEnv unauthorized401) ''p'' [] (cfgBase\<lparr>maxRetries := Some 5\<rparr>)
     = ([Attempt 0], Thrown (AuthenticationError INVALID_API_KEY))
   \<and> generate noKeyEnv ''p'' [] (cfgBase\<lparr>maxRetries := Some 5\<rparr>)
     = ([Attempt 0], Thrown (AuthenticationError API_KEY_MISSING))"
proof
  show "generate (failingEnv unauthorized401) ''p'' [] (cfgBase\<lparr>maxRetries := Some 5\<rparr>)
     = ([Attempt 0], Thrown (AuthenticationError INVALID_API_KEY))"
    using generate_auth_single_attempt
          [of "cfgBase\<lparr>maxRetries := Some 5\<rparr>" "failingEnv unauthorized401" "''p''" "[]"]
    by (simp add: retriesOf_cfgBase tryAttempt_failingEnv normalize_unauthorized401)
  show "generate noKeyEnv ''p'' [] (cfgBase\<lparr>maxRetries := Some 5\<rparr>)
     = ([Attempt 0], Thrown (AuthenticationError API_KEY_MISSING))"
    using generate_auth_single_attempt
          [of "cfgBase\<lparr>maxRetries := Some 5\<rparr>" noKeyEnv "''p''" "[]"]
    by (simp add: retriesOf_cfgBase noKeyEnv_key)
qed

text \<open>
  C4. With \<open>maxRetries = 2\<close>, when each of the attempts 0, 1 and 2 fails with an error that
  classifies as ServerOverloaded, and \<open>Math.random()\<close> returns values in [0, 1):
  \<open>generate\<close> makes exactly the three attempts, sleeps \<open>2^0 * 1000\<close> ms plus a jitter in
  [0, 500) after the first and \<open>2^1 * 1000\<close> ms plus a jitter in [0, 500) after the second,
  does not sleep after the third, and throws the error of the third attempt.
\<close>

theorem generate_overloaded_three_attempts:
  assumes "maxRetries config = Some 2"
    and "\<forall>a\<le>2. \<exists>t. tryAttempt env prompt images config a = Inl t
                  \<and> kindOf (normalizeError t) = ServerOverloaded"
    and "\<forall>a. 0 \<le> mathRandom env a \<and> mathRandom env a < 1"
  shows "\<exists>j0 j1 t. 0 \<le> j0 \<and> j0 < 500 \<and> 0 \<le> j1 \<and> j1 < 500
           \<and> tryAttempt env prompt images config 2 = Inl t
           \<and> kindOf (normalizeError t) = ServerOverloaded
           \<and> generate env prompt images config
               = ([Attempt 0, Sleep (2 ^ 0 * 1000 + j0),
                   Attempt 1, Sleep (2 ^ 1 * 1000 + j1),
                   Attempt 2],
                  Thrown (normalizeError t))"
proof -
  from assms(2) obtain t where
    t: "tryAttempt env prompt images config 2 = Inl t"
       "kindOf (normalizeError t) = ServerOverloaded"
    by auto
  have retried: "\<forall>a. 0 \<le> a \<and> a < 2 \<longrightarrow>
      (\<exists>t'. tryAttempt env prompt images config a = Inl t' \<and> \<not> nonTransient (normalizeError t'))"
  proof (intro allI impI)
    fix a :: nat
    assume "0 \<le> a \<and> a < 2"
    then have "a \<le> 2" by simp
    with assms(2) obtain t' where
      "tryAttempt env prompt images config a = Inl t'"
      "kindOf (normalizeError t') = ServerOverloaded"
      by blast
    then show "\<exists>t'. tryAttempt env prompt images config a = Inl t'
                  \<and> \<not> nonTransient (normalizeError t')"
      by (auto simp: nonTransient_retriedKind retriedKind_def)
  qed
  have run: "generateLoop env prompt images config (retriesOf config) 0 None
      = (retryTrace env 0 2, Thrown (normalizeError t))"
    by (rule generateLoop_run_throws [where n = 2])
       (use assms(1) t retried in \<open>simp_all add: retriesOf_def\<close>)
  have trace: "retryTrace env 0 2
      = [Attempt 0, Sleep (2 ^ 0 * 1000 + mathRandom env 0 * 500),
         Attempt 1, Sleep (2 ^ 1 * 1000 + mathRandom env 1 * 500), Attempt 2]"
    by (simp add: retryTrace_def backoffDelay_def upt_conv_Cons)
  have j0: "0 \<le> mathRandom env 0 * 500 \<and> mathRandom env 0 * 500 < 500"
    using assms(3) [rule_format, of 0] by simp
  have j1: "0 \<le> mathRandom env 1 * 500 \<and> mathRandom env 1 * 500 < 500"
    using assms(3) [rule_format, of 1] by simp
  show ?thesis
    using run trace j0 j1 t unfolding generate_def by metis
qed

theorem generate_overloaded_three_attempts_witness:
  "\<exists>j0 j1. 0 \<le> j0 \<and> j0 < 500 \<and> 0 \<le> j1 \<and> j1 < 500
     \<and> generate (failingEnv unavailable503) ''p'' [] (cfgBase\<lparr>maxRetries := Some 2\<rparr>)
         = ([Attempt 0, Sleep (1000 + j0), Attempt 1, Sleep (2000 + j1), Attempt 2],
            Thrown (ApiError SYSTEM_OVERLOAD 503))"
proof -
  have rnd: "\<forall>a. 0 \<le> mathRandom (failingEnv unavailable503) a
                \<and> mathRandom (failingEnv unavailable503) a < 1"
    by (simp add: failingEnv_def sampleEnv_def)
  have fails: "\<forall>a\<le>2. \<exists>t. tryAttempt (failingEnv unavailable503) ''p'' []
                   (cfgBase\<lparr>maxRetries := Some 2\<rparr>) a = Inl t
                  \<and> kindOf (normalizeError t) = ServerOverloaded"
    by (simp add: tryAttempt_failingEnv normalize_unavailable503)
  have cfg: "maxRetries (cfgBase\<lparr>maxRetries := Some 2\<rparr>) = Some 2" by simp
  from generate_overloaded_three_attempts [OF cfg fails rnd]
  show ?thesis
    by (simp add: tryAttempt_failingEnv normalize_unavailable503)
qed

text \<open>
  C5 as stated fails: a response with zero candidates makes \<open>parseResponse\<close> throw an
  \<open>ApiError\<close> with code 500, inside the \<open>try\<close> block of \<open>generate\<close>, and a code of 500 is
  retried. With \<open>maxRetries = 2\<close> and a provider that always answers with zero candidates
  there are three attempts and two backoff sleeps.
\<close>

theorem zero_candidates_retried_counterexample:
  "parseResponse zeroCandidates = Inl (App (ApiError ZERO_CANDIDATES 500))
   \<and> generate (answeringEnv zeroCandidates) ''p'' [] (cfgBase\<lparr>maxRetries := Some 2\<rparr>)
       = ([Attempt 0, Sleep 1125, Attempt 1, Sleep 2125, Attempt 2],
          Thrown (ApiError ZERO_CANDIDATES 500))"
proof -
  have p: "parseResponse zeroCandidates = Inl (App (ApiError ZERO_CANDIDATES 500))"
    by (simp add: parseResponse_def zeroCandidates_def firstCandidate_def)
  have "generateLoop (answeringEnv zeroCandidates) ''p'' [] (cfgBase\<lparr>maxRetries := Some 2\<rparr>)
          (int 2) 0 None
      = (retryTrace (answeringEnv zeroCandidates) 0 2,
         Thrown (normalizeError (App (ApiError ZERO_CANDIDATES 500))))"
    by (rule generateLoop_run_throws [where n = 2])
       (simp_all add: tryAttempt_answeringEnv p)
  moreover have "retryTrace (answeringEnv zeroCandidates) 0 2
      = [Attempt 0, Sleep 1125, Attempt 1, Sleep 2125, Attempt 2]"
    by (simp add: retryTrace_def backoffDelay_def upt_conv_Cons answeringEnv_def sampleEnv_def)
  ultimately show ?thesis
    using p by (simp add: generate_def retriesOf_cfgBase)
qed

text \<open>
  C5, amended. When the provider answers every attempt with a response that has no prompt
  block reason and zero candidates, \<open>generate\<close> treats the classified error
  (\<open>ApiError\<close>, code 500) as it treats a server overload: with \<open>maxRetries = n\<close> it makes
  \<open>n + 1\<close> attempts with a backoff sleep between consecutive ones, and throws the error
  after the last.
\<close>

theorem generate_zero_candidates_retried:
  assumes "retriesOf config = int n"
    and "\<forall>a\<le>n. \<exists>apiKey response.
           getApiKey (API_KEY env a) = Inr apiKey
           \<and> generateContent env a apiKey (buildRequest (utils env) prompt images config)
               = Inr response
           \<and> \<not> truthy (blockReason response) \<and> firstCandidate response = None"
  shows "generate env prompt images config
           = (retryTrace env 0 n, Thrown (ApiError ZERO_CANDIDATES 500))
       \<and> length (filter isAttempt (fst (generate env prompt images config))) = n + 1
       \<and> length (filter isSleep (fst (generate env prompt images config))) = n"
proof -
  have fails: "\<forall>a\<le>n. tryAttempt env prompt images config a
                 = Inl (App (ApiError ZERO_CANDIDATES 500))"
  proof (intro allI impI)
    fix a assume "a \<le> n"
    with assms(2) obtain apiKey response where
      "getApiKey (API_KEY env a) = Inr apiKey"
      "generateContent env a apiKey (buildRequest (utils env) prompt images config) = Inr response"
      "\<not> truthy (blockReason response)" "firstCandidate response = None"
      by blast
    then show "tryAttempt env prompt images config a = Inl (App (ApiError ZERO_CANDIDATES 500))"
      by (simp add: tryAttempt_def executeRequest_def parse_zero_candidates)
  qed
  have "generateLoop env prompt images config (retriesOf config) 0 None
      = (retryTrace env 0 n, Thrown (normalizeError (App (ApiError ZERO_CANDIDATES 500))))"
    by (rule generateLoop_run_throws [where n = n])
       (use assms(1) fails in simp_all)
  then show ?thesis
    by (simp add: generate_def count_attempts_retryTrace count_sleeps_retryTrace)
qed

theorem generate_zero_candidates_retried_witness:
  "generate (answeringEnv zeroCandidates) ''p'' [] (cfgBase\<lparr>maxRetries := Some 2\<rparr>)
     = (retryTrace (answeringEnv zeroCandidates) 0 2, Thrown (ApiError ZERO_CANDIDATES 500))
   \<and> length (filter isAttempt
        (fst (generate (answeringEnv zeroCandidates) ''p'' [] (cfgBase\<lparr>maxRetries := Some 2\<rparr>)))) = 3
   \<and> length (filter isSleep
        (fst (generate (answeringEnv zeroCandidates) ''p'' [] (cfgBase\<lparr>maxRetries := Some 2\<rparr>)))) = 2"
proof -
  have r: "retriesOf (cfgBase\<lparr>maxRetries := Some 2\<rparr>) = int 2"
    by (simp add: retriesOf_cfgBase)
  have h: "\<forall>a\<le>2. \<exists>apiKey response.
           getApiKey (API_KEY (answeringEnv zeroCandidates) a) = Inr apiKey
           \<and> generateContent (answeringEnv zeroCandidates) a apiKey
                (buildRequest (utils (answeringEnv zeroCandidates)) ''p'' []
                   (cfgBase\<lparr>maxRetries := Some 2\<rparr>))
               = Inr response
           \<and> \<not> truthy (blockReason response) \<and> firstCandidate response = None"
    by (simp add: answeringEnv_def sampleEnv_def getApiKey_def zeroCandidates_def
          firstCandidate_def)
  from generate_zero_candidates_retried [OF r h]
  show ?thesis
    by (simp add: count_attempts_retryTrace count_sleeps_retryTrace)
qed

section \<open>generateVideo\<close>

lemma pollLoop_never_done:
  assumes "\<forall>k operation. \<exists>operation'.
             getVideosOperation env k apiKey operation = Inr operation' \<and> \<not> opDone operation'"
  shows "\<not> opDone operation \<Longrightarrow> polls \<le> 61 \<Longrightarrow>
    pollLoop env apiKey operation polls
      = (concat (replicate (61 - polls) [Sleep 5000, Poll]), Inl (App (ApiError TIMEOUT 408)))"
proof (induction "61 - polls" arbitrary: polls operation)
  case 0
  then have "polls = 61" by simp
  with "0.prems" show ?case
    by (subst pollLoop.simps) (simp add: MAX_POLLS_def)
next
  case (Suc d)
  then have lt: "polls < 61" by simp
  from assms obtain operation' where
    op': "getVideosOperation env polls apiKey operation = Inr operation'" "\<not> opDone operation'"
    by blast
  have ih: "pollLoop env apiKey operation' (Suc polls)
      = (concat (replicate (61 - Suc polls) [Sleep 5000, Poll]), Inl (App (ApiError TIMEOUT 408)))"
    using Suc.hyps op'(2) lt by (intro Suc.hyps(1)) auto
  have "61 - polls = Suc (61 - Suc polls)" using lt by simp
  then have rep: "concat (replicate (61 - polls) [Sleep 5000, Poll])
      = Sleep 5000 # Poll # concat (replicate (61 - Suc polls) [Sleep 5000, Poll])"
    by (simp only: replicate_Suc concat.simps append_Cons append_Nil)
  show ?case
    using Suc.prems lt op' ih rep
    by (subst pollLoop.simps) (simp add: MAX_POLLS_def)
qed

text \<open>The \<open>for\<close> loop of the other copy stops after 60 polls.\<close>

lemma pollLoopFor_never_done:
  assumes "\<forall>k operation. \<exists>operation'.
             getVideosOperation env k apiKey operation = Inr operation' \<and> \<not> opDone operation'"
  shows "\<not> opDone operation \<Longrightarrow> i \<le> 60 \<Longrightarrow>
    pollLoopFor env apiKey operation i
      = (concat (replicate (60 - i) [Sleep 5000, Poll]), Inl (App (ApiError TIMEOUT 408)))"
proof (induction "60 - i" arbitrary: i operation)
  case 0
  then have "i = 60" by simp
  then show ?case
    by (subst pollLoopFor.simps) (simp add: MAX_POLLS_def)
next
  case (Suc d)
  then have lt: "i < 60" by simp
  from assms obtain operation' where
    op': "getVideosOperation env i apiKey operation = Inr operation'" "\<not> opDone operation'"
    by blast
  have ih: "pollLoopFor env apiKey operation' (Suc i)
      = (concat (replicate (60 - Suc i) [Sleep 5000, Poll]), Inl (App (ApiError TIMEOUT 408)))"
    using Suc.hyps op'(2) lt by (intro Suc.hyps(1)) auto
  have "60 - i = Suc (60 - Suc i)" using lt by simp
  then have rep: "concat (replicate (60 - i) [Sleep 5000, Poll])
      = Sleep 5000 # Poll # concat (replicate (60 - Suc i) [Sleep 5000, Poll])"
    by (simp only: replicate_Suc concat.simps append_Cons append_Nil)
  show ?case
    using Suc.prems lt op' ih rep
    by (subst pollLoopFor.simps) (simp add: MAX_POLLS_def)
qed

lemma count_polls_replicate:
  "length (filter isPoll (concat (replicate n [Sleep 5000, Poll]))) = n"
  by (induction n) simp_all

lemma count_sleeps_replicate:
  "length (filter isSleep (concat (replicate n [Sleep 5000, Poll]))) = n"
  by (induction n) simp_all

lemma neverDoneEnv_poll:
  "getVideosOperation neverDoneEnv k apiKey operation
     = Inr \<lparr>opDone = False, videoUri = None\<rparr>"
  by (simp add: neverDoneEnv_def failingEnv_def sampleEnv_def)

lemma pollLoopFor_neverDoneEnv:
  "pollLoopFor neverDoneEnv ''SECRET'' \<lparr>opDone = False, videoUri = None\<rparr> 0
     = (concat (replicate 60 [Sleep 5000, Poll]), Inl (App (ApiError TIMEOUT 408)))"
  using pollLoopFor_never_done
          [of neverDoneEnv "''SECRET''" "\<lparr>opDone = False, videoUri = None\<rparr>" 0]
  by (simp add: neverDoneEnv_poll)

text \<open>
  C8: the run of \<open>generateVideo\<close> of \<open>services/ai-core.ts\<close> on a job that is never done.
  The test \<open>polls++ > MAX_POLLS\<close> lets the counter values 0 to 60 through, so the loop
  sleeps and polls 61 times, not 60, before it throws the timeout error (code 408); it
  does terminate.
\<close>

theorem generateVideo_never_done_polls:
  "generateVideo neverDoneEnv ''p'' ''i''
     = (Submit # concat (replicate 61 [Sleep 5000, Poll]), Thrown (ApiError TIMEOUT 408))
   \<and> length (filter isPoll (fst (generateVideo neverDoneEnv ''p'' ''i''))) = 61
   \<and> length (filter isSleep (fst (generateVideo neverDoneEnv ''p'' ''i''))) = 61"
proof -
  have key: "getApiKey (API_KEY neverDoneEnv 0) = Inr ''SECRET''"
    by (simp add: neverDoneEnv_def failingEnv_def sampleEnv_def getApiKey_def)
  have submit: "generateVideos neverDoneEnv ''SECRET''
        (videoRequest (utils neverDoneEnv) ''p'' ''i'')
      = Inr \<lparr>opDone = False, videoUri = None\<rparr>"
    by (simp add: neverDoneEnv_def failingEnv_def sampleEnv_def)
  have "pollLoop neverDoneEnv ''SECRET'' \<lparr>opDone = False, videoUri = None\<rparr> 0
      = (concat (replicate (61 - 0) [Sleep 5000, Poll]), Inl (App (ApiError TIMEOUT 408)))"
  proof (rule pollLoop_never_done)
    show "\<forall>k operation. \<exists>operation'.
        getVideosOperation neverDoneEnv k ''SECRET'' operation = Inr operation'
        \<and> \<not> opDone operation'"
      by (simp add: neverDoneEnv_poll)
  qed simp_all
  then have "generateVideo neverDoneEnv ''p'' ''i''
      = (Submit # concat (replicate 61 [Sleep 5000, Poll]), Thrown (ApiError TIMEOUT 408))"
    using key submit by (simp add: generateVideo_def)
  then show ?thesis
    by (simp add: count_polls_replicate count_sleeps_replicate)
qed

lemma pollLoop_returns_done:
  "pollLoop env apiKey operation polls = (trace, Inr operation') \<Longrightarrow> opDone operation'"
proof (induction env apiKey operation polls arbitrary: trace rule: pollLoop.induct)
  case (1 env apiKey operation polls)
  show ?case
  proof (cases "opDone operation")
    case True
    with "1.prems" show ?thesis by (subst (asm) pollLoop.simps) simp
  next
    case False
    note nd = this
    show ?thesis
    proof (cases "polls > MAX_POLLS")
      case True
      with nd "1.prems" show ?thesis by (subst (asm) pollLoop.simps) simp
    next
      case False
      show ?thesis
      proof (cases "getVideosOperation env polls apiKey operation")
        case (Inl error)
        with nd False "1.prems" show ?thesis by (subst (asm) pollLoop.simps) simp
      next
        case (Inr op2)
        obtain tr r where rec: "pollLoop env apiKey op2 (Suc polls) = (tr, r)"
          by (cases "pollLoop env apiKey op2 (Suc polls)") auto
        from "1.prems" nd False Inr rec have "r = Inr operation'"
          by (subst (asm) pollLoop.simps) simp
        with rec "1.IH" [OF nd False Inr] show ?thesis by simp
      qed
    qed
  qed
qed

lemma pollLoop_done_at_once:
  "opDone operation \<Longrightarrow> pollLoop env apiKey operation polls = ([], Inr operation)"
  by (subst pollLoop.simps) simp

text \<open>
  C10. When the key is resolved, the job is submitted and the polling loop ends with a
  finished operation: if the operation has a result URI (a non-empty string; the code tests
  truthiness), \<open>generateVideo\<close> returns the URI with \<open>&key=\<close> and the key appended, which
  is not the bare URI; if it has none (undefined or empty), \<open>generateVideo\<close> returns null.
\<close>

theorem generateVideo_uri_carries_key:
  assumes "getApiKey (API_KEY env 0) = Inr apiKey"
    and "generateVideos env apiKey (videoRequest (utils env) prompt img) = Inr submitted"
    and "pollLoop env apiKey submitted 0 = (trace, Inr operation)"
  shows "opDone operation
       \<and> (truthy (videoUri operation) \<longrightarrow>
            generateVideo env prompt img
              = (Submit # trace, Returned (Some (the (videoUri operation) @ ''&key='' @ apiKey)))
            \<and> the (videoUri operation) @ ''&key='' @ apiKey \<noteq> the (videoUri operation))
       \<and> (\<not> truthy (videoUri operation) \<longrightarrow>
            generateVideo env prompt img = (Submit # trace, Returned None))"
  using assms pollLoop_returns_done [OF assms(3)]
  by (simp add: generateVideo_def)

theorem generateVideo_uri_carries_key_witness:
  "generateVideo (doneVideoEnv (Some ''https://v.example/clip.mp4?alt=media'')) ''p'' ''i''
     = ([Submit], Returned (Some ''https://v.example/clip.mp4?alt=media&key=SECRET''))
   \<and> generateVideo (doneVideoEnv None) ''p'' ''i'' = ([Submit], Returned None)"
proof
  have key: "getApiKey (API_KEY (doneVideoEnv uri) 0) = Inr ''SECRET''" for uri
    by (simp add: doneVideoEnv_def sampleEnv_def getApiKey_def)
  have submit: "generateVideos (doneVideoEnv uri) ''SECRET''
        (videoRequest (utils (doneVideoEnv uri)) ''p'' ''i'')
      = Inr \<lparr>opDone = True, videoUri = uri\<rparr>" for uri
    by (simp add: doneVideoEnv_def sampleEnv_def)
  have poll: "pollLoop (doneVideoEnv uri) ''SECRET'' \<lparr>opDone = True, videoUri = uri\<rparr> 0
      = ([], Inr \<lparr>opDone = True, videoUri = uri\<rparr>)" for uri
    by (simp add: pollLoop_done_at_once)
  from generateVideo_uri_carries_key
         [OF key submit poll, of "Some ''https://v.example/clip.mp4?alt=media''"]
  show "generateVideo (doneVideoEnv (Some ''https://v.example/clip.mp4?alt=media'')) ''p'' ''i''
     = ([Submit], Returned (Some ''https://v.example/clip.mp4?alt=media&key=SECRET''))"
    by simp
  from generateVideo_uri_carries_key [OF key submit poll, of None]
  show "generateVideo (doneVideoEnv None) ''p'' ''i'' = ([Submit], Returned None)"
    by simp
qed

end
